theory Spec2Isabelle
  imports Complex_Main
begin

section \<open>Values of the JavaScript program\<close>

text \<open>
  The module \<^verbatim>\<open>src/validateRequest.js\<close> exports two asynchronous functions,
  \<^verbatim>\<open>validateRequest\<close> and \<^verbatim>\<open>checkAdminRequest\<close>. Both either return \<^verbatim>\<open>true\<close> or
  return what \<^verbatim>\<open>send\<close> returns, which is \<^verbatim>\<open>undefined\<close>; \<^verbatim>\<open>checkAdminRequest\<close> can also
  fall off its end.
\<close>

datatype jsval = JTrue | JUndefined

text \<open>A call either returns a value or throws; \<^verbatim>\<open>try ... catch\<close> turns the second into
  the first.\<close>

datatype 'a outcome = Returned 'a | Thrown

text \<open>
  A Number as \<^verbatim>\<open>parseInt\<close> yields it: \<open>None\<close> is \<^verbatim>\<open>NaN\<close>, \<open>Some n\<close> the integer \<open>n\<close>.
  Integers are unbounded here; a double agrees with them on every comparison the
  program makes as long as \<^verbatim>\<open>MAX_CONTENT_LENGTH\<close> is below \<open>2^53\<close>. Minus zero is \<open>Some 0\<close>:
  the program only tests it with \<^verbatim>\<open>!\<close> and \<^verbatim>\<open>>\<close>.
\<close>

type_synonym number = "int option"

subsection \<open>parseInt\<close>

text \<open>
  ECMAScript's \<^verbatim>\<open>parseInt(string)\<close> with no radix: leading white space is dropped, a sign
  is read, a \<^verbatim>\<open>0x\<close> prefix selects radix 16, and the longest prefix of digits is the
  value; no digit at all gives \<^verbatim>\<open>NaN\<close>. Header values are Latin-1 strings, so the white
  space of interest is TAB, LF, VT, FF, CR, SP and NBSP.
\<close>

definition isWhiteSpace :: "char \<Rightarrow> bool" where
  "isWhiteSpace c =
     (c \<in> set [CHR 0x09, CHR 0x0A, CHR 0x0B, CHR 0x0C, CHR 0x0D, CHR 0x20, CHR 0xA0])"

definition digitValue :: "char \<Rightarrow> nat option" where
  "digitValue c =
     (let n = (of_char c :: nat) in
      if 48 \<le> n \<and> n \<le> 57 then Some (n - 48)
      else if 97 \<le> n \<and> n \<le> 122 then Some (n - 87)
      else if 65 \<le> n \<and> n \<le> 90 then Some (n - 55)
      else None)"

definition isRadixDigit :: "nat \<Rightarrow> char \<Rightarrow> bool" where
  "isRadixDigit R c = (case digitValue c of None \<Rightarrow> False | Some d \<Rightarrow> d < R)"

definition mathInt :: "nat \<Rightarrow> string \<Rightarrow> int" where
  "mathInt R Z =
     foldl (\<lambda>acc c. acc * int R + (case digitValue c of None \<Rightarrow> 0 | Some d \<Rightarrow> int d)) 0 Z"

definition parseInt :: "string \<Rightarrow> number" where
  "parseInt inputString =
     (let S = dropWhile isWhiteSpace inputString;
          sign = (if take 1 S = ''-'' then - 1 else 1);
          S1 = (if take 1 S = ''+'' \<or> take 1 S = ''-'' then drop 1 S else S);
          hex = (take 2 S1 = ''0x'' \<or> take 2 S1 = ''0X'');
          R = (if hex then 16 else 10);
          S2 = (if hex then drop 2 S1 else S1);
          Z = takeWhile (isRadixDigit R) S2
      in if Z = [] then None else Some (sign * mathInt R Z))"

text \<open>\<^verbatim>\<open>ToString\<close> of a header lookup: a header that is absent reads \<^verbatim>\<open>undefined\<close>.\<close>

definition toString :: "string option \<Rightarrow> string" where
  "toString v = (case v of None \<Rightarrow> ''undefined'' | Some s \<Rightarrow> s)"

text \<open>\<^verbatim>\<open>!x\<close> for a Number: \<^verbatim>\<open>NaN\<close> and zero are falsy.\<close>

definition falsyNumber :: "number \<Rightarrow> bool" where
  "falsyNumber x = (case x of None \<Rightarrow> True | Some n \<Rightarrow> n = 0)"

text \<open>\<^verbatim>\<open>x > y\<close> for a Number and an integer: every comparison with \<^verbatim>\<open>NaN\<close> is false.\<close>

definition numberGreater :: "number \<Rightarrow> int \<Rightarrow> bool" where
  "numberGreater x y = (case x of None \<Rightarrow> False | Some n \<Rightarrow> y < n)"

definition intGreaterNumber :: "int \<Rightarrow> number \<Rightarrow> bool" where
  "intGreaterNumber y x = (case x of None \<Rightarrow> False | Some n \<Rightarrow> n < y)"

text \<open>\<^verbatim>\<open>!x\<close> for a header value: \<^verbatim>\<open>undefined\<close> and the empty string are falsy.\<close>

definition falsyString :: "string option \<Rightarrow> bool" where
  "falsyString v = (case v of None \<Rightarrow> True | Some s \<Rightarrow> s = [])"

text \<open>\<^verbatim>\<open>Array.prototype.join\<close> and \<^verbatim>\<open>Array.prototype.includes\<close> on an array of strings.\<close>

fun join :: "string \<Rightarrow> string list \<Rightarrow> string" where
  "join sep [] = []"
| "join sep [x] = x"
| "join sep (x # y # ys) = x @ sep @ join sep (y # ys)"

definition array_includes :: "string list \<Rightarrow> string option \<Rightarrow> bool" where
  "array_includes xs v = (case v of None \<Rightarrow> False | Some s \<Rightarrow> s \<in> set xs)"

section \<open>Requests, endpoints and responses\<close>

text \<open>
  The request as the module reads it: \<^verbatim>\<open>request.method\<close>, \<^verbatim>\<open>request.pathname\<close>,
  \<^verbatim>\<open>request.headers\<close> (lower-case names), the upload, and
  \<^verbatim>\<open>request.connection.remoteAddress\<close> (which may be \<^verbatim>\<open>undefined\<close>).

  The upload is what micro's \<^verbatim>\<open>text(request, { encoding: 'utf8' })\<close> settles to. The
  package is not part of the repository, so its outcome is a datum of the request:
  \<open>textRejects\<close> says that the promise rejects, which micro does when the declared or
  the received size is over its limit of 1mb, when the bytes received are not as many
  as a numeric \<^verbatim>\<open>Content-Length\<close> declares, and when the upload is aborted; otherwise the
  promise resolves to \<open>body\<close>, the decoded text, whose \<open>length\<close> is the \<^verbatim>\<open>.length\<close> of the
  JavaScript string (code units, at most as many as the bytes received).
\<close>

record request =
  req_method :: string
  pathname :: string
  headers :: "string \<rightharpoonup> string"
  body :: string
  textRejects :: bool
  remoteAddress :: "string option"

datatype handler = Handler string

text \<open>
  The \<^verbatim>\<open>endpoints\<close> object: \<^verbatim>\<open>endpoints[method][pathname]\<close> is a handler, and
  \<^verbatim>\<open>endpoints.MAX_CONTENT_LENGTH\<close> a number of bytes. A handler is a function and so is
  truthy whenever it is present. The maps hold the object's own properties: an HTTP
  method and a path that starts with a slash never name an inherited one.
\<close>

record endpoints =
  routes :: "string \<rightharpoonup> (string \<rightharpoonup> handler)"
  MAX_CONTENT_LENGTH :: int

text \<open>
  A template literal keeps its holes: the message of the 413 response is the list of its
  string pieces and the two Numbers spliced into it.
\<close>

datatype part = Str string | Num number

record payload =
  success :: bool
  error :: "part list"

text \<open>The source address as \<^verbatim>\<open>getIp\<close> returns it: a string, or \<^verbatim>\<open>undefined\<close>.\<close>

type_synonym address = "string option"

text \<open>
  What a run does beyond returning: each call of a collaborator is entered in a trace,
  and the Ban Store is a map from address to expiry time (seconds).
\<close>

datatype event =
  ReadBody
| Send nat payload
| IsBanned address
| GetPublicControlKey
| Ban address int

record state =
  banStore :: "address \<rightharpoonup> int"
  trace :: "event list"

text \<open>micro's \<^verbatim>\<open>send(response, status, object)\<close> writes the response and returns
  \<^verbatim>\<open>undefined\<close>. Every call is entered in the trace, a second one on the same response
  like the first. Node refuses a second write (the call throws), so after a response
  of the validator the model is used only up to the second call of \<^verbatim>\<open>send\<close>, not for
  what that call returns.\<close>

definition send :: "nat \<Rightarrow> payload \<Rightarrow> state \<Rightarrow> jsval outcome \<times> state" where
  "send status obj s = (Returned JUndefined, s\<lparr>trace := trace s @ [Send status obj]\<rparr>)"

text \<open>\<^verbatim>\<open>await text(request, ...)\<close>: the decoded body, or the rejection thrown at the
  \<^verbatim>\<open>await\<close>.\<close>

definition text_utf8 :: "request \<Rightarrow> state \<Rightarrow> string outcome \<times> state" where
  "text_utf8 request s =
     (if textRejects request then Thrown else Returned (body request),
      s\<lparr>trace := trace s @ [ReadBody]\<rparr>)"

definition try_catch ::
  "(state \<Rightarrow> 'a outcome \<times> state) \<Rightarrow> (state \<Rightarrow> 'a outcome \<times> state) \<Rightarrow> state \<Rightarrow> 'a outcome \<times> state"
where
  "try_catch block handler s =
     (case block s of (Thrown, s') \<Rightarrow> handler s' | (Returned v, s') \<Rightarrow> (Returned v, s'))"

section \<open>The ECDSA library\<close>

text \<open>
  The package \<^verbatim>\<open>ecdsa-secp256r1\<close> is not part of the repository; the program is verified
  for every library. \<open>fromCompressedPublicKey\<close> parses the header text into a key or
  throws (\<open>None\<close>); \<open>hashAndVerify key message signature\<close> resolves to a boolean or
  rejects (\<open>None\<close>); \<open>toCompressedPublicKey\<close> is the base64 text of a key's compressed
  encoding.
\<close>

record 'k ecdsa =
  fromCompressedPublicKey :: "string \<Rightarrow> 'k option"
  hashAndVerify :: "'k \<Rightarrow> string \<Rightarrow> string \<Rightarrow> bool option"
  toCompressedPublicKey :: "'k \<Rightarrow> string"

section \<open>validateRequest\<close>

definition acceptedContentTypes :: "string list" where
  "acceptedContentTypes = [''application/json'', ''application/json; charset=utf-8'']"

text \<open>Lines 40 to 47, the body of the \<^verbatim>\<open>try\<close> block. When the signature verifies, control
  leaves the block and reaches \<^verbatim>\<open>return true\<close> on line 56.\<close>

definition signatureBlock ::
  "'k ecdsa \<Rightarrow> string \<Rightarrow> string \<Rightarrow> string \<Rightarrow> state \<Rightarrow> jsval outcome \<times> state"
where
  \<open>signatureBlock lib publicKey rawBody signature s =
     (case fromCompressedPublicKey lib publicKey of
        None \<Rightarrow> (Thrown, s)
      | Some key \<Rightarrow>
          (case hashAndVerify lib key rawBody signature of
             None \<Rightarrow> (Thrown, s)
           | Some verified \<Rightarrow>
               if verified then (Returned JTrue, s)
               else send 401 \<lparr>success = False, error = [Str
                 ''Header "X-Signature" does not verify (public key, BASE64(SIGN(SHA256(content))))'']\<rparr> s))\<close>

text \<open>
  Line 16 is outside the \<^verbatim>\<open>try\<close> block: when \<^verbatim>\<open>text\<close> rejects, the \<^verbatim>\<open>await\<close> throws and
  \<^verbatim>\<open>validateRequest\<close> ends with that exception, having sent nothing. On line 41 both
  headers are known to be strings that are not empty.
\<close>

definition validateRequest ::
  "'k ecdsa \<Rightarrow> endpoints \<Rightarrow> request \<Rightarrow> state \<Rightarrow> jsval outcome \<times> state"
where
  \<open>validateRequest lib endpoints request s =
     (if (case routes endpoints (req_method request) of
            None \<Rightarrow> True
          | Some paths \<Rightarrow> paths (pathname request) = None)
      then send 404 \<lparr>success = False, error = [Str ''Not found'']\<rparr> s
      else if req_method request = ''POST'' then
        (let maxContentLength = MAX_CONTENT_LENGTH endpoints;
             contentLength = parseInt (toString (headers request ''content-length''))
         in case text_utf8 request s of
              (Thrown, s1) \<Rightarrow> (Thrown, s1)
            | (Returned rawBody, s1) \<Rightarrow>
                if falsyNumber contentLength \<or> numberGreater contentLength maxContentLength
                   \<or> intGreaterNumber (int (length rawBody)) contentLength
                then send 413 \<lparr>success = False, error =
                       [Str ''Content length should be less than '', Num (Some maxContentLength),
                        Str '' (but is '', Num contentLength, Str '')'']\<rparr> s1
                else if \<not> array_includes acceptedContentTypes (headers request ''content-type'')
                then send 400 \<lparr>success = False, error =
                       [Str (''Header "Content-Type" should be one of "''
                             @ join ''", "'' acceptedContentTypes @ ''"'')]\<rparr> s1
                else
                  (let publicKey = headers request ''x-public-key'';
                       signature = headers request ''x-signature''
                   in if falsyString publicKey \<or> falsyString signature
                      then send 401 \<lparr>success = False, error =
                             [Str ''Header should contain "X-Public-Key" and "X-Signature"'']\<rparr> s1
                      else try_catch
                             (signatureBlock lib (toString publicKey) rawBody (toString signature))
                             (send 401 \<lparr>success = False, error = [Str
                                ''Header "X-Public-Key" should be the compressed public key (264 bites) base64 encoded'']\<rparr>)
                             s1))
      else (Returned JTrue, s))\<close>

text \<open>The conditions of line 9 and of line 17, by name.\<close>

definition endpointMissing :: "endpoints \<Rightarrow> request \<Rightarrow> bool" where
  "endpointMissing endpoints request =
     (case routes endpoints (req_method request) of
        None \<Rightarrow> True
      | Some paths \<Rightarrow> paths (pathname request) = None)"

definition lengthRejected :: "endpoints \<Rightarrow> request \<Rightarrow> bool" where
  "lengthRejected endpoints request =
     (let contentLength = parseInt (toString (headers request ''content-length''))
      in falsyNumber contentLength \<or> numberGreater contentLength (MAX_CONTENT_LENGTH endpoints)
         \<or> intGreaterNumber (int (length (body request))) contentLength)"

section \<open>checkAdminRequest\<close>

text \<open>\<^verbatim>\<open>a || b || c\<close> on header values: the first operand that is truthy, else the last.\<close>

definition getIp :: "request \<Rightarrow> address" where
  "getIp request =
     (if \<not> falsyString (headers request ''x-real-ip'') then headers request ''x-real-ip''
      else if \<not> falsyString (headers request ''x-forwarded-for'')
        then headers request ''x-forwarded-for''
      else remoteAddress request)"

text \<open>
  What the run of \<^verbatim>\<open>checkAdminRequest\<close> reads from outside the request: the library, the
  key that \<^verbatim>\<open>getPublicControlKey()\<close> resolves to, the clock (seconds) and the value that
  \<^verbatim>\<open>Math.random()\<close> returns, a real \<open>r\<close> with \<open>0 \<le> r < 1\<close>. The product \<^verbatim>\<open>r * 30\<close> is
  taken exactly. The program multiplies doubles, so at some draws its number of seconds
  is one less than the model's; rounding is monotone and exact at \<open>0\<close> and at \<open>30\<close>, so
  the bounds proved below hold for the program's product as well.
\<close>

record 'k env =
  ecdsa_lib :: "'k ecdsa"
  controlKey :: 'k
  now :: int
  random :: real

text \<open>
  Modelled from the spec: the modules \<^verbatim>\<open>./service/ban\<close> and \<^verbatim>\<open>./model/keys\<close> are not among
  the sources. Section 4.3 of the spec gives the Ban Store's contract: \<^verbatim>\<open>isBanned\<close> is true
  iff a record exists for the address and its expiry is still in the future, and
  \<^verbatim>\<open>ban\<close> sets or replaces the expiry to now plus the duration. The Key Store hands out
  the control key.
\<close>

definition activeBan :: "'k env \<Rightarrow> state \<Rightarrow> address \<Rightarrow> bool" where
  "activeBan env s ip =
     (case banStore s ip of None \<Rightarrow> False | Some expiresAt \<Rightarrow> now env < expiresAt)"

definition isBanned :: "'k env \<Rightarrow> address \<Rightarrow> state \<Rightarrow> bool \<times> state" where
  "isBanned env ip s = (activeBan env s ip, s\<lparr>trace := trace s @ [IsBanned ip]\<rparr>)"

definition ban :: "'k env \<Rightarrow> address \<Rightarrow> int \<Rightarrow> state \<Rightarrow> state" where
  "ban env ip durationSeconds s =
     s\<lparr>banStore := (banStore s)(ip \<mapsto> now env + durationSeconds),
       trace := trace s @ [Ban ip durationSeconds]\<rparr>"

definition getPublicControlKey :: "'k env \<Rightarrow> state \<Rightarrow> 'k \<times> state" where
  "getPublicControlKey env s = (controlKey env, s\<lparr>trace := trace s @ [GetPublicControlKey]\<rparr>)"

text \<open>
  Line 68 calls the asynchronous \<^verbatim>\<open>validateRequest\<close> with no \<^verbatim>\<open>await\<close>: the value of the
  call is the promise, not what the promise settles to. A promise is an object, and
  every object is truthy, also one that rejects.

  The effects of the call are entered in the trace before those of the caller. In the
  running program \<^verbatim>\<open>validateRequest\<close> runs up to its first \<^verbatim>\<open>await\<close> (line 16) before the
  caller goes on, and what it does after that interleaves with the caller; the model
  fixes one order. The 404 answer of lines 9 to 11 comes before any \<^verbatim>\<open>await\<close>, so there
  the order of the model is the order of the program.
\<close>

datatype 'a promise = Promise "'a outcome"

definition callAsync :: "(state \<Rightarrow> 'a outcome \<times> state) \<Rightarrow> state \<Rightarrow> 'a promise \<times> state" where
  "callAsync f s = (case f s of (r, s') \<Rightarrow> (Promise r, s'))"

definition truthyObject :: "'a promise \<Rightarrow> bool" where
  "truthyObject p = True"

definition MINUTE :: int where
  "MINUTE = 60"

definition checkAdminRequest ::
  "'k env \<Rightarrow> endpoints \<Rightarrow> request \<Rightarrow> state \<Rightarrow> jsval outcome \<times> state"
where
  \<open>checkAdminRequest env endpoints request s =
     (let (validated, s1) = callAsync (validateRequest (ecdsa_lib env) endpoints request) s
      in if truthyObject validated then
           (if req_method request = ''POST'' then
              (let ip = getIp request;
                   (banned, s2) = isBanned env ip s1
               in if banned then send 401 \<lparr>success = False, error = [Str ''Banned'']\<rparr> s2
                  else
                    (let (key, s3) = getPublicControlKey env s2;
                         controlKey = toCompressedPublicKey (ecdsa_lib env) key
                     in if Some controlKey \<noteq> headers request ''x-public-key'' then
                          (let s4 = ban env ip (5 * MINUTE + \<lceil>random env * 30\<rceil>) s3
                           in send 401 \<lparr>success = False, error =
                                [Str ''Header "X-Public-Key" should be the control key'']\<rparr> s4)
                        else (Returned JTrue, s3)))
            else (Returned JTrue, s1))
         else (Returned JUndefined, s1))\<close>

text \<open>The statuses of the responses sent, in order.\<close>

fun statuses :: "event list \<Rightarrow> nat list" where
  "statuses [] = []"
| "statuses (Send status obj # es) = status # statuses es"
| "statuses (e # es) = statuses es"

section \<open>A stand-in library and sample requests\<close>

text \<open>
  The theorems hold for every library. To run the program on concrete requests a small
  stand-in is used: a key is the 44 base64 characters of its 33-byte compressed
  encoding, read from the header text after skipping white space as Node's base64
  decoder does; curve membership and real signatures are not modelled. A signature
  verifies when it is the text produced by \<open>demo_sign\<close>, and a signature holding a
  character outside the base64 alphabet makes verification throw.
\<close>

definition isBase64Char :: "char \<Rightarrow> bool" where
  "isBase64Char c =
     (let n = (of_char c :: nat) in
      (65 \<le> n \<and> n \<le> 90) \<or> (97 \<le> n \<and> n \<le> 122) \<or> (48 \<le> n \<and> n \<le> 57)
      \<or> c = CHR ''+'' \<or> c = CHR ''/'')"

definition isBase64Space :: "char \<Rightarrow> bool" where
  "isBase64Space c = (c \<in> set [CHR 0x09, CHR 0x0A, CHR 0x0D, CHR 0x20])"

definition demo_fromCompressedPublicKey :: "string \<Rightarrow> string option" where
  "demo_fromCompressedPublicKey compressedKey =
     (let t = filter (\<lambda>c. \<not> isBase64Space c) compressedKey
      in if length t = 44 \<and> list_all isBase64Char t then Some t else None)"

definition demo_sign :: "string \<Rightarrow> string \<Rightarrow> string" where
  "demo_sign key message = take 8 (rev key) @ filter isBase64Char message"

definition demo_hashAndVerify :: "string \<Rightarrow> string \<Rightarrow> string \<Rightarrow> bool option" where
  "demo_hashAndVerify key message signature =
     (if list_all isBase64Char signature then Some (signature = demo_sign key message)
      else None)"

definition demo_ecdsa :: "string ecdsa" where
  "demo_ecdsa =
     \<lparr>fromCompressedPublicKey = demo_fromCompressedPublicKey,
      hashAndVerify = demo_hashAndVerify,
      toCompressedPublicKey = (\<lambda>key. key)\<rparr>"

text \<open>Two keys: the compressed encodings of the P-256 base point and of its double.\<close>

definition demo_controlKey :: string where
  "demo_controlKey = ''A2sX0fLhLEJH+Lzm5WOkQPJ3A32BLeszoPShOUXYmMKW''"

definition demo_otherKey :: string where
  "demo_otherKey = ''A3zyexiNA09+ilI4AwS1GsPAiWnid/IbNaYLSPxHZpl4''"

definition demo_env :: "real \<Rightarrow> string env" where
  "demo_env r = \<lparr>ecdsa_lib = demo_ecdsa, controlKey = demo_controlKey, now = 1000, random = r\<rparr>"

definition demo_endpoints :: endpoints where
  "demo_endpoints =
     \<lparr>routes = [''GET'' \<mapsto> [''/status'' \<mapsto> Handler ''status''],
                ''POST'' \<mapsto> [''/admin/mint'' \<mapsto> Handler ''mint'']],
      MAX_CONTENT_LENGTH = 1000\<rparr>"

definition demo_state :: state where
  "demo_state = \<lparr>banStore = Map.empty, trace = []\<rparr>"

text \<open>A well-formed admin request: the two bytes of the JSON body \<^verbatim>\<open>{}\<close>, delivered, and the
  headers of a caller that declares a key and a signature.\<close>

definition demo_post :: "string \<Rightarrow> string \<Rightarrow> request" where
  "demo_post publicKey signature =
     \<lparr>req_method = ''POST'', pathname = ''/admin/mint'',
      headers = [''content-length'' \<mapsto> ''2'', ''content-type'' \<mapsto> ''application/json'',
                 ''x-public-key'' \<mapsto> publicKey, ''x-signature'' \<mapsto> signature],
      body = ''{}'', textRejects = False, remoteAddress = Some ''10.0.0.1''\<rparr>"

section \<open>Unfolding and evaluation rules\<close>

lemmas js_simps = parseInt_def isWhiteSpace_def isRadixDigit_def digitValue_def mathInt_def
  toString_def falsyNumber_def numberGreater_def intGreaterNumber_def falsyString_def
  array_includes_def acceptedContentTypes_def

lemmas validate_simps = validateRequest_def signatureBlock_def try_catch_def send_def text_utf8_def

lemmas admin_simps = checkAdminRequest_def callAsync_def truthyObject_def getIp_def isBanned_def
  ban_def getPublicControlKey_def MINUTE_def

lemmas demo_simps = demo_ecdsa_def demo_fromCompressedPublicKey_def demo_hashAndVerify_def
  demo_sign_def isBase64Char_def isBase64Space_def demo_controlKey_def demo_otherKey_def
  demo_env_def demo_endpoints_def demo_state_def demo_post_def

lemmas eval_simps = js_simps validate_simps demo_simps endpointMissing_def lengthRejected_def

lemmas admin_eval_simps = getIp_def activeBan_def falsyString_def demo_env_def demo_post_def
  demo_state_def demo_ecdsa_def demo_controlKey_def demo_otherKey_def

lemma trace_update_eq [simp]: "(s\<lparr>trace := a\<rparr> = s\<lparr>trace := b\<rparr>) = (a = b)"
  by (cases s) simp

section \<open>The branches of validateRequest\<close>

text \<open>One lemma for each way through the function, in the order of the source.\<close>

lemma validateRequest_missing:
  "endpointMissing endpoints request \<Longrightarrow>
   validateRequest lib endpoints request s =
     send 404 \<lparr>success = False, error = [Str ''Not found'']\<rparr> s"
  by (simp add: validateRequest_def endpointMissing_def)

lemma validateRequest_other_method:
  "\<not> endpointMissing endpoints request \<Longrightarrow> req_method request \<noteq> ''POST'' \<Longrightarrow>
   validateRequest lib endpoints request s = (Returned JTrue, s)"
  by (simp add: validateRequest_def endpointMissing_def)

lemma validateRequest_text_rejects:
  "\<not> endpointMissing endpoints request \<Longrightarrow> req_method request = ''POST'' \<Longrightarrow>
   textRejects request \<Longrightarrow>
   validateRequest lib endpoints request s = (Thrown, s\<lparr>trace := trace s @ [ReadBody]\<rparr>)"
  by (simp add: validateRequest_def endpointMissing_def text_utf8_def Let_def)

lemma validateRequest_length:
  "\<not> endpointMissing endpoints request \<Longrightarrow> req_method request = ''POST'' \<Longrightarrow>
   \<not> textRejects request \<Longrightarrow> lengthRejected endpoints request \<Longrightarrow>
   validateRequest lib endpoints request s =
     send 413 \<lparr>success = False, error =
        [Str ''Content length should be less than '', Num (Some (MAX_CONTENT_LENGTH endpoints)),
         Str '' (but is '', Num (parseInt (toString (headers request ''content-length''))),
         Str '')'']\<rparr> (s\<lparr>trace := trace s @ [ReadBody]\<rparr>)"
  by (simp add: validateRequest_def endpointMissing_def lengthRejected_def text_utf8_def Let_def)

lemma validateRequest_type:
  \<open>\<not> endpointMissing endpoints request \<Longrightarrow> req_method request = ''POST'' \<Longrightarrow>
   \<not> textRejects request \<Longrightarrow> \<not> lengthRejected endpoints request \<Longrightarrow>
   \<not> array_includes acceptedContentTypes (headers request ''content-type'') \<Longrightarrow>
   validateRequest lib endpoints request s =
     send 400 \<lparr>success = False, error =
        [Str ''Header "Content-Type" should be one of "application/json", "application/json; charset=utf-8"'']\<rparr>
       (s\<lparr>trace := trace s @ [ReadBody]\<rparr>)\<close>
  by (simp add: validateRequest_def endpointMissing_def lengthRejected_def text_utf8_def Let_def
      acceptedContentTypes_def)

lemma validateRequest_headers:
  \<open>\<not> endpointMissing endpoints request \<Longrightarrow> req_method request = ''POST'' \<Longrightarrow>
   \<not> textRejects request \<Longrightarrow> \<not> lengthRejected endpoints request \<Longrightarrow>
   array_includes acceptedContentTypes (headers request ''content-type'') \<Longrightarrow>
   falsyString (headers request ''x-public-key'') \<or> falsyString (headers request ''x-signature'') \<Longrightarrow>
   validateRequest lib endpoints request s =
     send 401 \<lparr>success = False, error =
        [Str ''Header should contain "X-Public-Key" and "X-Signature"'']\<rparr>
       (s\<lparr>trace := trace s @ [ReadBody]\<rparr>)\<close>
  by (simp add: validateRequest_def endpointMissing_def lengthRejected_def text_utf8_def Let_def)

lemma validateRequest_signature:
  \<open>\<not> endpointMissing endpoints request \<Longrightarrow> req_method request = ''POST'' \<Longrightarrow>
   \<not> textRejects request \<Longrightarrow> \<not> lengthRejected endpoints request \<Longrightarrow>
   array_includes acceptedContentTypes (headers request ''content-type'') \<Longrightarrow>
   \<not> falsyString (headers request ''x-public-key'') \<Longrightarrow>
   \<not> falsyString (headers request ''x-signature'') \<Longrightarrow>
   validateRequest lib endpoints request s =
     try_catch
       (signatureBlock lib (toString (headers request ''x-public-key'')) (body request)
          (toString (headers request ''x-signature'')))
       (send 401 \<lparr>success = False, error = [Str
          ''Header "X-Public-Key" should be the compressed public key (264 bites) base64 encoded'']\<rparr>)
       (s\<lparr>trace := trace s @ [ReadBody]\<rparr>)\<close>
  by (simp add: validateRequest_def endpointMissing_def lengthRejected_def text_utf8_def Let_def)

lemma signatureBlock_cases:
  \<open>signatureBlock lib publicKey rawBody signature s = (Thrown, s)
     \<and> (fromCompressedPublicKey lib publicKey = None
          \<or> (\<exists>key. fromCompressedPublicKey lib publicKey = Some key
                \<and> hashAndVerify lib key rawBody signature = None))
   \<or> signatureBlock lib publicKey rawBody signature s = (Returned JTrue, s)
     \<and> (\<exists>key. fromCompressedPublicKey lib publicKey = Some key
                \<and> hashAndVerify lib key rawBody signature = Some True)
   \<or> signatureBlock lib publicKey rawBody signature s =
       send 401 \<lparr>success = False, error = [Str
         ''Header "X-Signature" does not verify (public key, BASE64(SIGN(SHA256(content))))'']\<rparr> s
     \<and> (\<exists>key. fromCompressedPublicKey lib publicKey = Some key
                \<and> hashAndVerify lib key rawBody signature = Some False)\<close>
  by (simp add: signatureBlock_def split: option.splits)

lemma try_catch_signatureBlock:
  \<open>(try_catch (signatureBlock lib publicKey rawBody signature) (send 401 obj) s = (Returned JTrue, s)
      \<and> (\<exists>key. fromCompressedPublicKey lib publicKey = Some key
                \<and> hashAndVerify lib key rawBody signature = Some True))
   \<or> (\<exists>obj'. try_catch (signatureBlock lib publicKey rawBody signature) (send 401 obj) s =
         (Returned JUndefined, s\<lparr>trace := trace s @ [Send 401 obj']\<rparr>))\<close>
  using signatureBlock_cases [of lib publicKey rawBody signature s]
  by (auto simp: try_catch_def send_def)

lemma validateRequest_effect:
  "\<exists>r es. validateRequest lib endpoints request s = (r, s\<lparr>trace := trace s @ es\<rparr>)
     \<and> ((r = Returned JTrue \<and> es = (if req_method request = ''POST'' then [ReadBody] else []))
          \<or> (r = Returned JUndefined
              \<and> (\<exists>st obj. es = [Send st obj] \<or> es = [ReadBody, Send st obj]))
          \<or> (r = Thrown \<and> textRejects request \<and> es = [ReadBody]))"
proof -
  let ?s1 = "s\<lparr>trace := trace s @ [ReadBody]\<rparr>"
  consider (missing) "endpointMissing endpoints request"
    | (other) "\<not> endpointMissing endpoints request" "req_method request \<noteq> ''POST''"
    | (rejects) "\<not> endpointMissing endpoints request" "req_method request = ''POST''"
        "textRejects request"
    | (len) "\<not> endpointMissing endpoints request" "req_method request = ''POST''"
        "\<not> textRejects request" "lengthRejected endpoints request"
    | (type) "\<not> endpointMissing endpoints request" "req_method request = ''POST''"
        "\<not> textRejects request" "\<not> lengthRejected endpoints request"
        "\<not> array_includes acceptedContentTypes (headers request ''content-type'')"
    | (hdrs) "\<not> endpointMissing endpoints request" "req_method request = ''POST''"
        "\<not> textRejects request" "\<not> lengthRejected endpoints request"
        "array_includes acceptedContentTypes (headers request ''content-type'')"
        "falsyString (headers request ''x-public-key'') \<or> falsyString (headers request ''x-signature'')"
    | (sig) "\<not> endpointMissing endpoints request" "req_method request = ''POST''"
        "\<not> textRejects request" "\<not> lengthRejected endpoints request"
        "array_includes acceptedContentTypes (headers request ''content-type'')"
        "\<not> falsyString (headers request ''x-public-key'')"
        "\<not> falsyString (headers request ''x-signature'')"
    by blast
  then show ?thesis
  proof cases
    case missing
    show ?thesis
      unfolding validateRequest_missing [OF missing] send_def by blast
  next
    case other
    have "validateRequest lib endpoints request s = (Returned JTrue, s\<lparr>trace := trace s @ []\<rparr>)"
      using validateRequest_other_method [OF other] by simp
    with other(2) show ?thesis by auto
  next
    case rejects
    show ?thesis
      unfolding validateRequest_text_rejects [OF rejects] using rejects(3) by auto
  next
    case len
    show ?thesis
      unfolding validateRequest_length [OF len] send_def by auto
  next
    case type
    show ?thesis
      unfolding validateRequest_type [OF type] send_def by auto
  next
    case hdrs
    show ?thesis
      unfolding validateRequest_headers [OF hdrs] send_def by auto
  next
    case sig
    from try_catch_signatureBlock [of lib _ _ _ _ ?s1]
    show ?thesis
      unfolding validateRequest_signature [OF sig] using sig(2) by fastforce
  qed
qed

lemma validateRequest_passed_length:
  assumes "\<not> endpointMissing endpoints request" and "req_method request = ''POST''"
    and "\<not> textRejects request" and "\<not> lengthRejected endpoints request"
  shows "validateRequest lib endpoints request s = (Returned JTrue, s\<lparr>trace := trace s @ [ReadBody]\<rparr>)
           \<and> (\<exists>publicKey signature key.
                 headers request ''x-public-key'' = Some publicKey
                 \<and> headers request ''x-signature'' = Some signature
                 \<and> fromCompressedPublicKey lib publicKey = Some key
                 \<and> hashAndVerify lib key (body request) signature = Some True)
         \<or> (\<exists>obj. validateRequest lib endpoints request s =
               (Returned JUndefined, s\<lparr>trace := trace s @ [ReadBody, Send 400 obj]\<rparr>))
         \<or> (\<exists>obj. validateRequest lib endpoints request s =
               (Returned JUndefined, s\<lparr>trace := trace s @ [ReadBody, Send 401 obj]\<rparr>))"
proof -
  let ?s1 = "s\<lparr>trace := trace s @ [ReadBody]\<rparr>"
  consider (type) "\<not> array_includes acceptedContentTypes (headers request ''content-type'')"
    | (hdrs) "array_includes acceptedContentTypes (headers request ''content-type'')"
        "falsyString (headers request ''x-public-key'') \<or> falsyString (headers request ''x-signature'')"
    | (sig) "array_includes acceptedContentTypes (headers request ''content-type'')"
        "\<not> falsyString (headers request ''x-public-key'')"
        "\<not> falsyString (headers request ''x-signature'')"
    by blast
  then show ?thesis
  proof cases
    case type
    show ?thesis
      unfolding validateRequest_type [OF assms type] send_def by simp
  next
    case hdrs
    show ?thesis
      unfolding validateRequest_headers [OF assms hdrs] send_def by simp
  next
    case sig
    from sig(2,3) obtain publicKey signature
      where h: "headers request ''x-public-key'' = Some publicKey"
        "headers request ''x-signature'' = Some signature"
      by (auto simp: falsyString_def split: option.splits)
    from try_catch_signatureBlock [of lib publicKey "body request" signature _ ?s1]
    show ?thesis
      unfolding validateRequest_signature [OF assms sig] h toString_def
      by (auto simp: h)
  qed
qed

section \<open>The branches of checkAdminRequest\<close>

lemma validateRequest_banStore:
  "banStore (snd (validateRequest lib endpoints request s)) = banStore s"
  using validateRequest_effect [of lib endpoints request s] by auto

lemma activeBan_after_validation:
  "activeBan env (snd (validateRequest lib endpoints request s)) ip = activeBan env s ip"
  by (simp add: activeBan_def validateRequest_banStore)

lemma checkAdminRequest_other_method:
  "req_method request \<noteq> ''POST'' \<Longrightarrow>
   checkAdminRequest env endpoints request s =
     (Returned JTrue, snd (validateRequest (ecdsa_lib env) endpoints request s))"
  by (simp add: checkAdminRequest_def callAsync_def truthyObject_def case_prod_beta)

lemma checkAdminRequest_banned:
  "req_method request = ''POST'' \<Longrightarrow> activeBan env s (getIp request) \<Longrightarrow>
   s1 = snd (validateRequest (ecdsa_lib env) endpoints request s) \<Longrightarrow>
   checkAdminRequest env endpoints request s =
     (Returned JUndefined,
      s1\<lparr>trace := trace s1 @ [IsBanned (getIp request),
          Send 401 \<lparr>success = False, error = [Str ''Banned'']\<rparr>]\<rparr>)"
  by (simp add: checkAdminRequest_def callAsync_def truthyObject_def isBanned_def send_def
      case_prod_beta Let_def activeBan_after_validation)

lemma checkAdminRequest_match:
  "req_method request = ''POST'' \<Longrightarrow> \<not> activeBan env s (getIp request) \<Longrightarrow>
   headers request ''x-public-key'' = Some (toCompressedPublicKey (ecdsa_lib env) (controlKey env)) \<Longrightarrow>
   s1 = snd (validateRequest (ecdsa_lib env) endpoints request s) \<Longrightarrow>
   checkAdminRequest env endpoints request s =
     (Returned JTrue, s1\<lparr>trace := trace s1 @ [IsBanned (getIp request), GetPublicControlKey]\<rparr>)"
  by (simp add: checkAdminRequest_def callAsync_def truthyObject_def isBanned_def
      getPublicControlKey_def case_prod_beta Let_def activeBan_after_validation)

lemma checkAdminRequest_mismatch:
  \<open>req_method request = ''POST'' \<Longrightarrow> \<not> activeBan env s (getIp request) \<Longrightarrow>
   headers request ''x-public-key'' \<noteq> Some (toCompressedPublicKey (ecdsa_lib env) (controlKey env)) \<Longrightarrow>
   s1 = snd (validateRequest (ecdsa_lib env) endpoints request s) \<Longrightarrow>
   d = 300 + \<lceil>random env * 30\<rceil> \<Longrightarrow>
   checkAdminRequest env endpoints request s =
     (Returned JUndefined,
      s1\<lparr>banStore := (banStore s1)(getIp request \<mapsto> now env + d),
         trace := trace s1 @ [IsBanned (getIp request), GetPublicControlKey, Ban (getIp request) d,
           Send 401 \<lparr>success = False, error =
             [Str ''Header "X-Public-Key" should be the control key'']\<rparr>]\<rparr>)\<close>
  by (simp add: checkAdminRequest_def callAsync_def truthyObject_def isBanned_def
      getPublicControlKey_def ban_def send_def MINUTE_def case_prod_beta Let_def
      activeBan_after_validation)

lemma jitter_bounds:
  fixes r :: real
  assumes "0 \<le> r" and "r < 1"
  shows "0 \<le> \<lceil>r * 30\<rceil>" and "\<lceil>r * 30\<rceil> \<le> 30" and "0 < r \<Longrightarrow> 0 < \<lceil>r * 30\<rceil>"
proof -
  from assms(1) have "0 \<le> r * 30" by simp
  then show "0 \<le> \<lceil>r * 30\<rceil>" by (simp add: ceiling_le_iff le_ceiling_iff)
  from assms(2) have "r * 30 \<le> 30" by simp
  then show "\<lceil>r * 30\<rceil> \<le> 30" by (simp add: ceiling_le_iff)
  show "0 < r \<Longrightarrow> 0 < \<lceil>r * 30\<rceil>" by (simp add: less_ceiling_iff)
qed

section \<open>Properties of validateRequest\<close>

text \<open>
  C8. A request whose method has no entry in the endpoint table, or whose path has no
  entry under its method, is answered 404 with the object
  \<^verbatim>\<open>{ success: false, error: 'Not found' }\<close>, and nothing else happens, whatever its
  headers and body are.
\<close>

theorem validateRequest_not_found:
  assumes "routes endpoints (req_method request) = None
           \<or> (\<exists>paths. routes endpoints (req_method request) = Some paths
                       \<and> paths (pathname request) = None)"
  shows "validateRequest lib endpoints request s =
           (Returned JUndefined,
            s\<lparr>trace := trace s @ [Send 404 \<lparr>success = False, error = [Str ''Not found'']\<rparr>]\<rparr>)"
proof -
  from assms have "endpointMissing endpoints request"
    by (auto simp: endpointMissing_def)
  then show ?thesis
    by (simp add: validateRequest_missing send_def)
qed

theorem validateRequest_not_found_witness:
  "routes demo_endpoints ''DELETE'' = None
   \<and> validateRequest demo_ecdsa demo_endpoints
        \<lparr>req_method = ''DELETE'', pathname = ''/status'',
         headers = [''content-type'' \<mapsto> ''text/plain'', ''x-signature'' \<mapsto> ''WKMmYXUO''],
         body = ''anything'', textRejects = False, remoteAddress = None\<rparr> demo_state =
      (Returned JUndefined,
       \<lparr>banStore = Map.empty,
        trace = [Send 404 \<lparr>success = False, error = [Str ''Not found'']\<rparr>]\<rparr>)"
  using validateRequest_not_found [of demo_endpoints
      "\<lparr>req_method = ''DELETE'', pathname = ''/status'',
         headers = [''content-type'' \<mapsto> ''text/plain'', ''x-signature'' \<mapsto> ''WKMmYXUO''],
         body = ''anything'', textRejects = False, remoteAddress = None\<rparr>" demo_ecdsa demo_state]
  by (simp add: demo_endpoints_def demo_state_def)

text \<open>
  C9. For a method other than POST and an endpoint that is in the table,
  \<^verbatim>\<open>validateRequest\<close> returns \<^verbatim>\<open>true\<close> and leaves the state as it was: the body is not
  read and no response is sent. The same holds with any other headers and body in the
  request, so none of them is inspected.
\<close>

theorem validateRequest_other_methods:
  assumes "routes endpoints (req_method request) = Some paths"
    and "paths (pathname request) = Some h"
    and "req_method request \<noteq> ''POST''"
  shows "validateRequest lib endpoints request s = (Returned JTrue, s)
         \<and> validateRequest lib endpoints (request\<lparr>headers := hs, body := b\<rparr>) s
             = (Returned JTrue, s)"
  using assms by (simp add: validateRequest_def)

theorem validateRequest_other_methods_witness:
  "routes demo_endpoints ''GET'' = Some [''/status'' \<mapsto> Handler ''status'']
   \<and> [''/status'' \<mapsto> Handler ''status''] ''/status'' = Some (Handler ''status'')
   \<and> ''GET'' \<noteq> ''POST''
   \<and> validateRequest demo_ecdsa demo_endpoints
        \<lparr>req_method = ''GET'', pathname = ''/status'', headers = Map.empty,
         body = [], textRejects = False, remoteAddress = None\<rparr> demo_state = (Returned JTrue, demo_state)
   \<and> validateRequest demo_ecdsa demo_endpoints
        \<lparr>req_method = ''GET'', pathname = ''/status'',
         headers = [''content-length'' \<mapsto> ''oops'', ''x-public-key'' \<mapsto> ''junk''],
         body = ''not json'', textRejects = False, remoteAddress = None\<rparr> demo_state = (Returned JTrue, demo_state)"
  using validateRequest_other_methods [where endpoints = demo_endpoints
      and request = "\<lparr>req_method = ''GET'', pathname = ''/status'', headers = Map.empty,
         body = [], textRejects = False, remoteAddress = None\<rparr>"
      and paths = "[''/status'' \<mapsto> Handler ''status'']" and h = "Handler ''status''"
      and lib = demo_ecdsa and s = demo_state
      and hs = "[''content-length'' \<mapsto> ''oops'', ''x-public-key'' \<mapsto> ''junk'']"
      and b = "''not json''"]
  by (simp add: demo_endpoints_def)

text \<open>
  C10. A POST to an existing endpoint whose \<^verbatim>\<open>Content-Length\<close> header parses to zero is
  answered 413 once the body is read, whatever the body and \<^verbatim>\<open>MAX_CONTENT_LENGTH\<close> are:
  \<^verbatim>\<open>!contentLength\<close> is true for zero as it is for \<^verbatim>\<open>NaN\<close>. (Should \<^verbatim>\<open>text\<close> reject, the
  check is not reached and the rejection leaves the function; a request that declares
  the length zero over HTTP has an empty body, which \<^verbatim>\<open>text\<close> delivers.)
\<close>

theorem validateRequest_zero_content_length:
  assumes "\<not> endpointMissing endpoints request"
    and "req_method request = ''POST''"
    and "parseInt (toString (headers request ''content-length'')) = Some 0"
  shows "(\<not> textRejects request \<longrightarrow>
           validateRequest lib endpoints request s =
             (Returned JUndefined,
              s\<lparr>trace := trace s @
                [ReadBody,
                 Send 413 \<lparr>success = False, error =
                   [Str ''Content length should be less than '',
                    Num (Some (MAX_CONTENT_LENGTH endpoints)),
                    Str '' (but is '', Num (Some 0), Str '')'']\<rparr>]\<rparr>))
         \<and> (textRejects request \<longrightarrow>
           validateRequest lib endpoints request s =
             (Thrown, s\<lparr>trace := trace s @ [ReadBody]\<rparr>))"
proof -
  from assms(3) have "lengthRejected endpoints request"
    by (simp add: lengthRejected_def falsyNumber_def)
  from validateRequest_length [OF assms(1,2) _ this, of lib s]
    validateRequest_text_rejects [OF assms(1,2), of lib s] assms(3)
  show ?thesis
    by (simp add: send_def)
qed

theorem validateRequest_zero_content_length_witness:
  "\<not> endpointMissing demo_endpoints
        \<lparr>req_method = ''POST'', pathname = ''/admin/mint'',
         headers = [''content-length'' \<mapsto> ''0''], body = [], textRejects = False,
         remoteAddress = None\<rparr>
   \<and> parseInt (toString ([''content-length'' \<mapsto> ''0''] ''content-length'')) = Some 0
   \<and> 0 < MAX_CONTENT_LENGTH demo_endpoints
   \<and> validateRequest demo_ecdsa demo_endpoints
        \<lparr>req_method = ''POST'', pathname = ''/admin/mint'',
         headers = [''content-length'' \<mapsto> ''0''], body = [], textRejects = False,
         remoteAddress = None\<rparr> demo_state =
      (Returned JUndefined,
       \<lparr>banStore = Map.empty,
        trace = [ReadBody,
                 Send 413 \<lparr>success = False, error =
                   [Str ''Content length should be less than '', Num (Some 1000),
                    Str '' (but is '', Num (Some 0), Str '')'']\<rparr>]\<rparr>)"
  using validateRequest_zero_content_length [of demo_endpoints
      "\<lparr>req_method = ''POST'', pathname = ''/admin/mint'',
         headers = [''content-length'' \<mapsto> ''0''], body = [], textRejects = False,
         remoteAddress = None\<rparr>"
      demo_ecdsa demo_state]
  by (simp add: demo_endpoints_def demo_state_def endpointMissing_def js_simps)

text \<open>
  C4, as amended. For a POST to an existing endpoint whose body \<^verbatim>\<open>text\<close> delivers, the
  413 response of line 18 is sent if and only if the \<^verbatim>\<open>Content-Length\<close> header is missing
  or not numeric (it parses to \<^verbatim>\<open>NaN\<close>), or parses to zero, or the declared length
  exceeds \<^verbatim>\<open>MAX_CONTENT_LENGTH\<close>, or the body text is longer than the declared length. A
  body text shorter than a declared length that is not zero and within the maximum is
  therefore not rejected by this check.
\<close>

theorem content_length_check:
  assumes "\<not> endpointMissing endpoints request"
    and "req_method request = ''POST''"
    and "\<not> textRejects request"
    and "contentLength = parseInt (toString (headers request ''content-length''))"
  shows "((\<exists>obj. validateRequest lib endpoints request s =
              (Returned JUndefined, s\<lparr>trace := trace s @ [ReadBody, Send 413 obj]\<rparr>))
          \<longleftrightarrow> (contentLength = None \<or> contentLength = Some 0
               \<or> (\<exists>n. contentLength = Some n
                       \<and> (MAX_CONTENT_LENGTH endpoints < n \<or> n < int (length (body request))))))
         \<and> (headers request ''content-length'' = None \<longrightarrow> contentLength = None)
         \<and> (\<forall>n. contentLength = Some n \<and> n \<noteq> 0 \<and> n \<le> MAX_CONTENT_LENGTH endpoints
                  \<and> int (length (body request)) < n \<longrightarrow>
                \<not> (\<exists>obj. validateRequest lib endpoints request s =
                       (Returned JUndefined, s\<lparr>trace := trace s @ [ReadBody, Send 413 obj]\<rparr>)))"
proof -
  have rejected: "lengthRejected endpoints request \<longleftrightarrow>
      (contentLength = None \<or> contentLength = Some 0
       \<or> (\<exists>n. contentLength = Some n
               \<and> (MAX_CONTENT_LENGTH endpoints < n \<or> n < int (length (body request)))))"
    unfolding lengthRejected_def assms(4) [symmetric]
    by (cases contentLength) (auto simp: falsyNumber_def numberGreater_def intGreaterNumber_def)
  have sent: "(\<exists>obj. validateRequest lib endpoints request s =
              (Returned JUndefined, s\<lparr>trace := trace s @ [ReadBody, Send 413 obj]\<rparr>))
      \<longleftrightarrow> lengthRejected endpoints request"
  proof (cases "lengthRejected endpoints request")
    case True
    with validateRequest_length [OF assms(1,2,3) True, of lib s] show ?thesis
      by (simp add: send_def)
  next
    case False
    from validateRequest_passed_length [OF assms(1,2,3) False, of lib s] False show ?thesis
      by auto
  qed
  have missing: "headers request ''content-length'' = None \<longrightarrow> contentLength = None"
    by (simp add: assms(4) js_simps)
  have shorter: "\<not> (\<exists>obj. validateRequest lib endpoints request s =
          (Returned JUndefined, s\<lparr>trace := trace s @ [ReadBody, Send 413 obj]\<rparr>))"
    if "contentLength = Some n" "n \<noteq> 0" "n \<le> MAX_CONTENT_LENGTH endpoints"
      "int (length (body request)) < n" for n
    using that rejected sent by auto
  from rejected sent missing shorter show ?thesis by blast
qed

text \<open>
  Two requests whose body \<^verbatim>\<open>text\<close> delivers. The first declares 2000 bytes, more than the
  maximum of 1000, and carries them: it is answered 413. The second declares the two
  bytes that encode the one code unit \<open>0xE9\<close> in UTF-8 and carries them: the text is shorter
  than the declared length and the check lets it pass.
\<close>

theorem content_length_check_witness:
  "\<not> endpointMissing demo_endpoints
        \<lparr>req_method = ''POST'', pathname = ''/admin/mint'',
         headers = [''content-length'' \<mapsto> ''2000''], body = replicate 2000 CHR ''a'',
         textRejects = False, remoteAddress = None\<rparr>
   \<and> parseInt (toString ([''content-length'' \<mapsto> ''2000''] ''content-length'')) = Some 2000
   \<and> MAX_CONTENT_LENGTH demo_endpoints < 2000
   \<and> (\<exists>obj. validateRequest demo_ecdsa demo_endpoints
        \<lparr>req_method = ''POST'', pathname = ''/admin/mint'',
         headers = [''content-length'' \<mapsto> ''2000''], body = replicate 2000 CHR ''a'',
         textRejects = False, remoteAddress = None\<rparr> demo_state =
      (Returned JUndefined, demo_state\<lparr>trace := trace demo_state @ [ReadBody, Send 413 obj]\<rparr>))
   \<and> parseInt (toString ([''content-length'' \<mapsto> ''2''] ''content-length'')) = Some 2
   \<and> int (length [CHR 0xE9]) < 2
   \<and> \<not> (\<exists>obj. validateRequest demo_ecdsa demo_endpoints
        \<lparr>req_method = ''POST'', pathname = ''/admin/mint'',
         headers = [''content-length'' \<mapsto> ''2''], body = [CHR 0xE9],
         textRejects = False, remoteAddress = None\<rparr> demo_state =
      (Returned JUndefined, demo_state\<lparr>trace := trace demo_state @ [ReadBody, Send 413 obj]\<rparr>))"
  using content_length_check [where endpoints = demo_endpoints
      and request = "\<lparr>req_method = ''POST'', pathname = ''/admin/mint'',
         headers = [''content-length'' \<mapsto> ''2000''], body = replicate 2000 CHR ''a'',
         textRejects = False, remoteAddress = None\<rparr>"
      and contentLength = "Some 2000" and lib = demo_ecdsa and s = demo_state]
    content_length_check [where endpoints = demo_endpoints
      and request = "\<lparr>req_method = ''POST'', pathname = ''/admin/mint'',
         headers = [''content-length'' \<mapsto> ''2''], body = [CHR 0xE9],
         textRejects = False, remoteAddress = None\<rparr>"
      and contentLength = "Some 2" and lib = demo_ecdsa and s = demo_state]
  by (simp add: demo_endpoints_def endpointMissing_def js_simps)

text \<open>
  The claim as stated fails in two ways. With \<^verbatim>\<open>Content-Length: 0\<close> and an empty body the
  header is present and numeric, zero does not exceed the maximum of 1000, the body is
  not longer than declared, and yet the answer is 413. With a declared length of
  2000000, above the maximum and above micro's limit, \<^verbatim>\<open>text\<close> rejects before the check
  and no 413 is sent by it.
\<close>

theorem content_length_check_counterexample:
  "statuses (trace (snd (validateRequest demo_ecdsa demo_endpoints
        \<lparr>req_method = ''POST'', pathname = ''/admin/mint'',
         headers = [''content-length'' \<mapsto> ''0'', ''content-type'' \<mapsto> ''application/json''],
         body = [], textRejects = False, remoteAddress = None\<rparr> demo_state))) = [413]
   \<and> parseInt ''0'' = Some 0
   \<and> \<not> MAX_CONTENT_LENGTH demo_endpoints < 0
   \<and> \<not> (0::int) < int (length ([]::string))
   \<and> validateRequest demo_ecdsa demo_endpoints
        \<lparr>req_method = ''POST'', pathname = ''/admin/mint'',
         headers = [''content-length'' \<mapsto> ''2000000'', ''content-type'' \<mapsto> ''application/json''],
         body = [], textRejects = True, remoteAddress = None\<rparr> demo_state
       = (Thrown, \<lparr>banStore = Map.empty, trace = [ReadBody]\<rparr>)
   \<and> parseInt ''2000000'' = Some 2000000
   \<and> MAX_CONTENT_LENGTH demo_endpoints < 2000000"
  by (simp add: demo_endpoints_def demo_state_def js_simps validate_simps)

text \<open>
  C2. If \<^verbatim>\<open>validateRequest\<close> returns \<^verbatim>\<open>true\<close> then the method is not POST, or the
  \<^verbatim>\<open>X-Public-Key\<close> header was parsed into a key by the library and the library verified
  the \<^verbatim>\<open>X-Signature\<close> header over the body, as read, under that key.
\<close>

theorem validateRequest_true_only_if_signed:
  assumes "fst (validateRequest lib endpoints request s) = Returned JTrue"
  shows "req_method request \<noteq> ''POST''
         \<or> (\<exists>publicKey signature key.
               headers request ''x-public-key'' = Some publicKey
               \<and> headers request ''x-signature'' = Some signature
               \<and> fromCompressedPublicKey lib publicKey = Some key
               \<and> hashAndVerify lib key (body request) signature = Some True)"
proof (cases "req_method request = ''POST''")
  case False
  then show ?thesis by simp
next
  case True
  have present: "\<not> endpointMissing endpoints request"
    using assms by (auto simp: validateRequest_missing send_def)
  have delivered: "\<not> textRejects request"
    using assms validateRequest_text_rejects [OF present True, of lib s]
    by auto
  have accepted: "\<not> lengthRejected endpoints request"
    using assms validateRequest_length [OF present True delivered, of lib s]
    by (auto simp: send_def)
  from validateRequest_passed_length [OF present True delivered accepted, of lib s] assms
  show ?thesis by auto
qed

theorem validateRequest_true_only_if_signed_witness:
  "fst (validateRequest demo_ecdsa demo_endpoints (demo_post demo_controlKey ''WKMmYXUO'')
          demo_state) = Returned JTrue
   \<and> req_method (demo_post demo_controlKey ''WKMmYXUO'') = ''POST''
   \<and> (\<exists>publicKey signature key.
         headers (demo_post demo_controlKey ''WKMmYXUO'') ''x-public-key'' = Some publicKey
         \<and> headers (demo_post demo_controlKey ''WKMmYXUO'') ''x-signature'' = Some signature
         \<and> fromCompressedPublicKey demo_ecdsa publicKey = Some key
         \<and> hashAndVerify demo_ecdsa key (body (demo_post demo_controlKey ''WKMmYXUO'')) signature
             = Some True)"
proof -
  have run: "fst (validateRequest demo_ecdsa demo_endpoints (demo_post demo_controlKey ''WKMmYXUO'')
          demo_state) = Returned JTrue"
    by (simp add: eval_simps)
  have post: "req_method (demo_post demo_controlKey ''WKMmYXUO'') = ''POST''"
    by (simp add: demo_post_def)
  from validateRequest_true_only_if_signed [OF run] post run show ?thesis
    by blast
qed




section \<open>Properties of checkAdminRequest\<close>

text \<open>
  C6. A POST that passes validation and comes from an address with an active ban is
  answered 401 with \<^verbatim>\<open>{ success: false, error: 'Banned' }\<close>. After the body read of the
  validator the only calls are \<^verbatim>\<open>isBanned\<close> and \<^verbatim>\<open>send\<close>: the control key is not
  fetched, \<^verbatim>\<open>ban\<close> is not called, and the Ban Store is as it was.
\<close>

theorem banned_address_rejected:
  assumes "req_method request = ''POST''"
    and "fst (validateRequest (ecdsa_lib env) endpoints request s) = Returned JTrue"
    and "activeBan env s (getIp request)"
  shows "checkAdminRequest env endpoints request s =
           (Returned JUndefined,
            s\<lparr>trace := trace s @ [ReadBody, IsBanned (getIp request),
                Send 401 \<lparr>success = False, error = [Str ''Banned'']\<rparr>]\<rparr>)
         \<and> banStore (snd (checkAdminRequest env endpoints request s)) = banStore s"
proof -
  from validateRequest_effect [of "ecdsa_lib env" endpoints request s] assms(1,2)
  have "snd (validateRequest (ecdsa_lib env) endpoints request s) = s\<lparr>trace := trace s @ [ReadBody]\<rparr>"
    by auto
  with checkAdminRequest_banned [OF assms(1,3) refl, of endpoints] show ?thesis
    by simp
qed

theorem banned_address_rejected_witness:
  "req_method (demo_post demo_controlKey ''WKMmYXUO'') = ''POST''
   \<and> fst (validateRequest demo_ecdsa demo_endpoints (demo_post demo_controlKey ''WKMmYXUO'')
        \<lparr>banStore = [Some ''10.0.0.1'' \<mapsto> 1200], trace = []\<rparr>) = Returned JTrue
   \<and> activeBan (demo_env 0) \<lparr>banStore = [Some ''10.0.0.1'' \<mapsto> 1200], trace = []\<rparr>
        (getIp (demo_post demo_controlKey ''WKMmYXUO''))
   \<and> checkAdminRequest (demo_env 0) demo_endpoints (demo_post demo_controlKey ''WKMmYXUO'')
        \<lparr>banStore = [Some ''10.0.0.1'' \<mapsto> 1200], trace = []\<rparr> =
      (Returned JUndefined,
       \<lparr>banStore = [Some ''10.0.0.1'' \<mapsto> 1200],
        trace = [ReadBody, IsBanned (Some ''10.0.0.1''),
                 Send 401 \<lparr>success = False, error = [Str ''Banned'']\<rparr>]\<rparr>)"
proof -
  have post: "req_method (demo_post demo_controlKey ''WKMmYXUO'') = ''POST''"
    by (simp add: demo_post_def)
  have valid: "fst (validateRequest (ecdsa_lib (demo_env 0)) demo_endpoints
        (demo_post demo_controlKey ''WKMmYXUO'')
        \<lparr>banStore = [Some ''10.0.0.1'' \<mapsto> 1200], trace = []\<rparr>) = Returned JTrue"
    by (simp add: eval_simps)
  have banned: "activeBan (demo_env 0) \<lparr>banStore = [Some ''10.0.0.1'' \<mapsto> 1200], trace = []\<rparr>
        (getIp (demo_post demo_controlKey ''WKMmYXUO''))"
    by (simp add: admin_eval_simps)
  have ip: "getIp (demo_post demo_controlKey ''WKMmYXUO'') = Some ''10.0.0.1''"
    by (simp add: admin_eval_simps)
  from banned_address_rejected [OF post valid banned] post valid banned ip show ?thesis
    by (simp add: demo_env_def)
qed

text \<open>
  C3, as amended. For a POST that has passed validation and comes from an address with
  no active ban, \<^verbatim>\<open>checkAdminRequest\<close> compares the text of the \<^verbatim>\<open>X-Public-Key\<close> header
  with the base64 text of the control key's compressed encoding, by string equality:
  when the two texts are equal it returns \<^verbatim>\<open>true\<close>, and when they differ it bans the
  address and answers 401 with the control-key message, also when the header decodes to
  the same 33 bytes as the control key.
\<close>

theorem control_key_comparison:
  assumes "req_method request = ''POST''"
    and "fst (validateRequest (ecdsa_lib env) endpoints request s) = Returned JTrue"
    and "\<not> activeBan env s (getIp request)"
    and "controlKeyText = toCompressedPublicKey (ecdsa_lib env) (controlKey env)"
    and "d = 300 + \<lceil>random env * 30\<rceil>"
  shows \<open>(headers request ''x-public-key'' = Some controlKeyText \<longrightarrow>
            checkAdminRequest env endpoints request s =
              (Returned JTrue,
               s\<lparr>trace := trace s @ [ReadBody, IsBanned (getIp request), GetPublicControlKey]\<rparr>))
         \<and> (headers request ''x-public-key'' \<noteq> Some controlKeyText \<longrightarrow>
            checkAdminRequest env endpoints request s =
              (Returned JUndefined,
               s\<lparr>banStore := (banStore s)(getIp request \<mapsto> now env + d),
                 trace := trace s @ [ReadBody, IsBanned (getIp request), GetPublicControlKey,
                   Ban (getIp request) d,
                   Send 401 \<lparr>success = False, error =
                     [Str ''Header "X-Public-Key" should be the control key'']\<rparr>]\<rparr>))\<close>
proof -
  from validateRequest_effect [of "ecdsa_lib env" endpoints request s] assms(1,2)
  have s1: "snd (validateRequest (ecdsa_lib env) endpoints request s)
      = s\<lparr>trace := trace s @ [ReadBody]\<rparr>"
    by auto
  have match: "headers request ''x-public-key'' = Some controlKeyText \<Longrightarrow>
      checkAdminRequest env endpoints request s =
        (Returned JTrue,
         s\<lparr>trace := trace s @ [ReadBody, IsBanned (getIp request), GetPublicControlKey]\<rparr>)"
    using checkAdminRequest_match [OF assms(1,3) _ refl, of endpoints]
    by (simp add: assms(4) s1)
  have mismatch: \<open>headers request ''x-public-key'' \<noteq> Some controlKeyText \<Longrightarrow>
      checkAdminRequest env endpoints request s =
        (Returned JUndefined,
         s\<lparr>banStore := (banStore s)(getIp request \<mapsto> now env + d),
           trace := trace s @ [ReadBody, IsBanned (getIp request), GetPublicControlKey,
             Ban (getIp request) d,
             Send 401 \<lparr>success = False, error =
               [Str ''Header "X-Public-Key" should be the control key'']\<rparr>]\<rparr>)\<close>
    using checkAdminRequest_mismatch [OF assms(1,3) _ refl assms(5), of endpoints]
    by (simp add: assms(4) s1)
  from match mismatch show ?thesis by blast
qed

text \<open>
  Two requests that pass validation: one signed by the control key, which is admitted,
  and one signed by another key, which is banned for 300 seconds at the draw \<open>0\<close>.
\<close>

theorem control_key_comparison_witness:
  \<open>req_method (demo_post demo_controlKey ''WKMmYXUO'') = ''POST''
   \<and> fst (validateRequest demo_ecdsa demo_endpoints (demo_post demo_controlKey ''WKMmYXUO'')
        demo_state) = Returned JTrue
   \<and> fst (validateRequest demo_ecdsa demo_endpoints (demo_post demo_otherKey ''4lpZHxPS'')
        demo_state) = Returned JTrue
   \<and> \<not> activeBan (demo_env 0) demo_state (getIp (demo_post demo_controlKey ''WKMmYXUO''))
   \<and> checkAdminRequest (demo_env 0) demo_endpoints (demo_post demo_controlKey ''WKMmYXUO'')
        demo_state =
      (Returned JTrue,
       \<lparr>banStore = Map.empty,
        trace = [ReadBody, IsBanned (Some ''10.0.0.1''), GetPublicControlKey]\<rparr>)
   \<and> checkAdminRequest (demo_env 0) demo_endpoints (demo_post demo_otherKey ''4lpZHxPS'')
        demo_state =
      (Returned JUndefined,
       \<lparr>banStore = [Some ''10.0.0.1'' \<mapsto> 1300],
        trace = [ReadBody, IsBanned (Some ''10.0.0.1''), GetPublicControlKey,
                 Ban (Some ''10.0.0.1'') 300,
                 Send 401 \<lparr>success = False, error =
                   [Str ''Header "X-Public-Key" should be the control key'']\<rparr>]\<rparr>)\<close>
proof -
  have post: "req_method (demo_post k g) = ''POST''" for k g
    by (simp add: demo_post_def)
  have free: "\<not> activeBan (demo_env 0) demo_state (getIp (demo_post k g))" for k g
    by (simp add: admin_eval_simps)
  have ip: "getIp (demo_post k g) = Some ''10.0.0.1''" for k g
    by (simp add: admin_eval_simps)
  have lib: "ecdsa_lib (demo_env 0) = demo_ecdsa"
    by (simp add: demo_env_def)
  have v1: "fst (validateRequest (ecdsa_lib (demo_env 0)) demo_endpoints
        (demo_post demo_controlKey ''WKMmYXUO'') demo_state) = Returned JTrue"
    by (simp add: eval_simps demo_env_def)
  have v2: "fst (validateRequest (ecdsa_lib (demo_env 0)) demo_endpoints
        (demo_post demo_otherKey ''4lpZHxPS'') demo_state) = Returned JTrue"
    by (simp add: eval_simps demo_env_def)
  have h1: "headers (demo_post demo_controlKey ''WKMmYXUO'') ''x-public-key''
      = Some (toCompressedPublicKey (ecdsa_lib (demo_env 0)) (controlKey (demo_env 0)))"
    by (simp add: admin_eval_simps)
  have h2: "headers (demo_post demo_otherKey ''4lpZHxPS'') ''x-public-key''
      \<noteq> Some (toCompressedPublicKey (ecdsa_lib (demo_env 0)) (controlKey (demo_env 0)))"
    by (simp add: admin_eval_simps)
  have r: "random (demo_env 0) = 0" "now (demo_env 0) = 1000"
    by (simp_all add: demo_env_def)
  from control_key_comparison [OF post v1 free refl refl] h1 ip
  have a: "checkAdminRequest (demo_env 0) demo_endpoints (demo_post demo_controlKey ''WKMmYXUO'')
        demo_state =
      (Returned JTrue,
       \<lparr>banStore = Map.empty,
        trace = [ReadBody, IsBanned (Some ''10.0.0.1''), GetPublicControlKey]\<rparr>)"
    by (simp add: demo_state_def)
  from control_key_comparison [OF post v2 free refl refl] h2 ip r
  have b: \<open>checkAdminRequest (demo_env 0) demo_endpoints (demo_post demo_otherKey ''4lpZHxPS'')
        demo_state =
      (Returned JUndefined,
       \<lparr>banStore = [Some ''10.0.0.1'' \<mapsto> 1300],
        trace = [ReadBody, IsBanned (Some ''10.0.0.1''), GetPublicControlKey,
                 Ban (Some ''10.0.0.1'') 300,
                 Send 401 \<lparr>success = False, error =
                   [Str ''Header "X-Public-Key" should be the control key'']\<rparr>]\<rparr>)\<close>
    by (simp add: demo_state_def)
  from post free a b v1 v2 lib show ?thesis by simp
qed

text \<open>
  The claim as stated compares the 33 bytes. A header that spells the control key's own
  bytes with a space inside the base64 text is parsed to the control key and passes
  validation, yet the comparison fails: the address is banned and the answer is 401.
\<close>

theorem control_key_comparison_counterexample:
  \<open>fromCompressedPublicKey demo_ecdsa ''A2sX0fLhLEJH+Lzm5WOkQP J3A32BLeszoPShOUXYmMKW''
     = Some demo_controlKey
   \<and> toCompressedPublicKey demo_ecdsa demo_controlKey
     = toCompressedPublicKey demo_ecdsa (controlKey (demo_env (1/2)))
   \<and> validateRequest demo_ecdsa demo_endpoints
        (demo_post ''A2sX0fLhLEJH+Lzm5WOkQP J3A32BLeszoPShOUXYmMKW'' ''WKMmYXUO'') demo_state
     = (Returned JTrue, \<lparr>banStore = Map.empty, trace = [ReadBody]\<rparr>)
   \<and> checkAdminRequest (demo_env (1/2)) demo_endpoints
        (demo_post ''A2sX0fLhLEJH+Lzm5WOkQP J3A32BLeszoPShOUXYmMKW'' ''WKMmYXUO'') demo_state
     = (Returned JUndefined,
        \<lparr>banStore = [Some ''10.0.0.1'' \<mapsto> 1315],
         trace = [ReadBody, IsBanned (Some ''10.0.0.1''), GetPublicControlKey,
                  Ban (Some ''10.0.0.1'') 315,
                  Send 401 \<lparr>success = False, error =
                    [Str ''Header "X-Public-Key" should be the control key'']\<rparr>]\<rparr>)\<close>
proof -
  have parse: "fromCompressedPublicKey demo_ecdsa ''A2sX0fLhLEJH+Lzm5WOkQP J3A32BLeszoPShOUXYmMKW''
     = Some demo_controlKey"
    by (simp add: demo_simps)
  have same: "toCompressedPublicKey demo_ecdsa demo_controlKey
     = toCompressedPublicKey demo_ecdsa (controlKey (demo_env (1/2)))"
    by (simp add: demo_simps)
  have valid: "validateRequest demo_ecdsa demo_endpoints
        (demo_post ''A2sX0fLhLEJH+Lzm5WOkQP J3A32BLeszoPShOUXYmMKW'' ''WKMmYXUO'') demo_state
     = (Returned JTrue, \<lparr>banStore = Map.empty, trace = [ReadBody]\<rparr>)"
    by (simp add: eval_simps)
  have admin: \<open>checkAdminRequest (demo_env (1/2)) demo_endpoints
        (demo_post ''A2sX0fLhLEJH+Lzm5WOkQP J3A32BLeszoPShOUXYmMKW'' ''WKMmYXUO'') demo_state
     = (Returned JUndefined,
        \<lparr>banStore = [Some ''10.0.0.1'' \<mapsto> 1315],
         trace = [ReadBody, IsBanned (Some ''10.0.0.1''), GetPublicControlKey,
                  Ban (Some ''10.0.0.1'') 315,
                  Send 401 \<lparr>success = False, error =
                    [Str ''Header "X-Public-Key" should be the control key'']\<rparr>]\<rparr>)\<close>
    by (simp add: admin_simps activeBan_def eval_simps Let_def)
  from parse same valid admin show ?thesis by simp
qed

text \<open>
  C5, as amended. On a control-key mismatch the ban lasts
  \<open>5 * 60 + \<lceil>r * 30\<rceil>\<close> seconds for the draw \<open>r\<close> of \<^verbatim>\<open>Math.random()\<close>, \<open>0 \<le> r < 1\<close>: at
  least 300 and at most 330 seconds, and more than 300 whenever the draw is not zero. The
  expiry written to the Ban Store lies between now plus 300 and now plus 330 seconds,
  both included.
\<close>

theorem ban_duration_bounds:
  assumes "0 \<le> random env" and "random env < 1"
    and "req_method request = ''POST''"
    and "\<not> activeBan env s (getIp request)"
    and "headers request ''x-public-key''
           \<noteq> Some (toCompressedPublicKey (ecdsa_lib env) (controlKey env))"
    and "s1 = snd (validateRequest (ecdsa_lib env) endpoints request s)"
    and "d = 5 * 60 + \<lceil>random env * 30\<rceil>"
  shows \<open>300 \<le> d \<and> d \<le> 330 \<and> (0 < random env \<longrightarrow> 300 < d)
         \<and> checkAdminRequest env endpoints request s =
             (Returned JUndefined,
              s1\<lparr>banStore := (banStore s1)(getIp request \<mapsto> now env + d),
                 trace := trace s1 @ [IsBanned (getIp request), GetPublicControlKey,
                   Ban (getIp request) d,
                   Send 401 \<lparr>success = False, error =
                     [Str ''Header "X-Public-Key" should be the control key'']\<rparr>]\<rparr>)
         \<and> banStore (snd (checkAdminRequest env endpoints request s)) (getIp request)
             = Some (now env + d)
         \<and> now env + 300 \<le> now env + d \<and> now env + d \<le> now env + 330\<close>
proof -
  have d: "d = 300 + \<lceil>random env * 30\<rceil>"
    using assms(7) by simp
  from jitter_bounds [OF assms(1,2)] d
  have bounds: "300 \<le> d" "d \<le> 330" "0 < random env \<Longrightarrow> 300 < d"
    by simp_all
  note run = checkAdminRequest_mismatch [OF assms(3,4,5,6) d]
  have store: "banStore (snd (checkAdminRequest env endpoints request s)) (getIp request)
      = Some (now env + d)"
    unfolding run by simp
  from bounds run store show ?thesis by simp
qed

theorem ban_duration_bounds_witness:
  "(0::real) \<le> 1/2 \<and> (1/2::real) < 1
   \<and> req_method (demo_post demo_otherKey ''4lpZHxPS'') = ''POST''
   \<and> \<not> activeBan (demo_env (1/2)) demo_state (getIp (demo_post demo_otherKey ''4lpZHxPS''))
   \<and> headers (demo_post demo_otherKey ''4lpZHxPS'') ''x-public-key''
       \<noteq> Some (toCompressedPublicKey demo_ecdsa demo_controlKey)
   \<and> banStore (snd (checkAdminRequest (demo_env (1/2)) demo_endpoints
         (demo_post demo_otherKey ''4lpZHxPS'') demo_state)) (Some ''10.0.0.1'') = Some (1000 + 315)"
proof -
  have r: "0 \<le> random (demo_env (1/2))" "random (demo_env (1/2)) < 1"
    by (simp_all add: demo_env_def)
  have post: "req_method (demo_post demo_otherKey ''4lpZHxPS'') = ''POST''"
    by (simp add: demo_post_def)
  have free: "\<not> activeBan (demo_env (1/2)) demo_state (getIp (demo_post demo_otherKey ''4lpZHxPS''))"
    by (simp add: admin_eval_simps)
  have other: "headers (demo_post demo_otherKey ''4lpZHxPS'') ''x-public-key''
       \<noteq> Some (toCompressedPublicKey (ecdsa_lib (demo_env (1/2))) (controlKey (demo_env (1/2))))"
    by (simp add: admin_eval_simps)
  have ip: "getIp (demo_post demo_otherKey ''4lpZHxPS'') = Some ''10.0.0.1''"
    by (simp add: admin_eval_simps)
  have d: "5 * 60 + \<lceil>random (demo_env (1/2)) * 30\<rceil> = 315" "now (demo_env (1/2)) = 1000"
    by (simp_all add: demo_env_def)
  from ban_duration_bounds [OF r post free other refl refl, of demo_endpoints]
  have "banStore (snd (checkAdminRequest (demo_env (1/2)) demo_endpoints
         (demo_post demo_otherKey ''4lpZHxPS'') demo_state)) (Some ''10.0.0.1'') = Some (1000 + 315)"
    unfolding ip d by blast
  with post free other show ?thesis
    by (simp add: demo_env_def)
qed

text \<open>
  The claim as stated asks for an expiry strictly above now plus 300 seconds for every
  draw. The draw \<open>0\<close> gives a jitter of \<open>\<lceil>0\<rceil> = 0\<close> and a ban of exactly 300 seconds.
\<close>

theorem ban_duration_counterexample:
  \<open>(0::real) \<le> random (demo_env 0) \<and> random (demo_env 0) < 1
   \<and> now (demo_env 0) = 1000
   \<and> validateRequest demo_ecdsa demo_endpoints (demo_post demo_otherKey ''4lpZHxPS'') demo_state
       = (Returned JTrue, \<lparr>banStore = Map.empty, trace = [ReadBody]\<rparr>)
   \<and> checkAdminRequest (demo_env 0) demo_endpoints (demo_post demo_otherKey ''4lpZHxPS'')
         demo_state
       = (Returned JUndefined,
          \<lparr>banStore = [Some ''10.0.0.1'' \<mapsto> 1000 + 300],
           trace = [ReadBody, IsBanned (Some ''10.0.0.1''), GetPublicControlKey,
                    Ban (Some ''10.0.0.1'') 300,
                    Send 401 \<lparr>success = False, error =
                      [Str ''Header "X-Public-Key" should be the control key'']\<rparr>]\<rparr>)\<close>
  by (simp add: admin_simps activeBan_def eval_simps Let_def)

text \<open>
  C1. The claim asks that a failure of the validator stops \<^verbatim>\<open>checkAdminRequest\<close>. The
  program does not do that: line 68 tests the promise that the un-awaited call returns,
  which is always truthy. For a request to an endpoint that is not in the table the
  validator answers 404 and \<^verbatim>\<open>checkAdminRequest\<close> goes on all the same: for a method
  other than POST it returns \<^verbatim>\<open>true\<close>; for a POST from an address that is not banned it
  fetches the control key, compares it, and either returns \<^verbatim>\<open>true\<close> or bans the address
  and sends a second response.
\<close>

theorem checkAdminRequest_after_not_found:
  assumes "endpointMissing endpoints request"
    and "controlKeyText = toCompressedPublicKey (ecdsa_lib env) (controlKey env)"
    and "d = 300 + \<lceil>random env * 30\<rceil>"
    and "notFound = Send 404 \<lparr>success = False, error = [Str ''Not found'']\<rparr>"
  shows \<open>(req_method request \<noteq> ''POST'' \<longrightarrow>
            checkAdminRequest env endpoints request s =
              (Returned JTrue, s\<lparr>trace := trace s @ [notFound]\<rparr>))
         \<and> (req_method request = ''POST'' \<and> \<not> activeBan env s (getIp request)
            \<and> headers request ''x-public-key'' = Some controlKeyText \<longrightarrow>
            checkAdminRequest env endpoints request s =
              (Returned JTrue,
               s\<lparr>trace := trace s @ [notFound, IsBanned (getIp request), GetPublicControlKey]\<rparr>))
         \<and> (req_method request = ''POST'' \<and> \<not> activeBan env s (getIp request)
            \<and> headers request ''x-public-key'' \<noteq> Some controlKeyText \<longrightarrow>
            checkAdminRequest env endpoints request s =
              (Returned JUndefined,
               s\<lparr>banStore := (banStore s)(getIp request \<mapsto> now env + d),
                 trace := trace s @ [notFound, IsBanned (getIp request), GetPublicControlKey,
                   Ban (getIp request) d,
                   Send 401 \<lparr>success = False, error =
                     [Str ''Header "X-Public-Key" should be the control key'']\<rparr>]\<rparr>))\<close>
proof -
  have s1: "snd (validateRequest (ecdsa_lib env) endpoints request s)
      = s\<lparr>trace := trace s @ [notFound]\<rparr>"
    by (simp add: validateRequest_missing [OF assms(1)] send_def assms(4))
  have other: "req_method request \<noteq> ''POST'' \<Longrightarrow>
      checkAdminRequest env endpoints request s =
        (Returned JTrue, s\<lparr>trace := trace s @ [notFound]\<rparr>)"
    by (simp add: checkAdminRequest_other_method s1)
  have match: "req_method request = ''POST'' \<Longrightarrow> \<not> activeBan env s (getIp request) \<Longrightarrow>
      headers request ''x-public-key'' = Some controlKeyText \<Longrightarrow>
      checkAdminRequest env endpoints request s =
        (Returned JTrue,
         s\<lparr>trace := trace s @ [notFound, IsBanned (getIp request), GetPublicControlKey]\<rparr>)"
    using checkAdminRequest_match [where env = env and request = request and s = s
        and endpoints = endpoints, OF _ _ _ refl]
    by (simp add: s1 assms(2))
  have mismatch: \<open>req_method request = ''POST'' \<Longrightarrow> \<not> activeBan env s (getIp request) \<Longrightarrow>
      headers request ''x-public-key'' \<noteq> Some controlKeyText \<Longrightarrow>
      checkAdminRequest env endpoints request s =
        (Returned JUndefined,
         s\<lparr>banStore := (banStore s)(getIp request \<mapsto> now env + d),
           trace := trace s @ [notFound, IsBanned (getIp request), GetPublicControlKey,
             Ban (getIp request) d,
             Send 401 \<lparr>success = False, error =
               [Str ''Header "X-Public-Key" should be the control key'']\<rparr>]\<rparr>)\<close>
    using checkAdminRequest_mismatch [where env = env and request = request and s = s
        and endpoints = endpoints and d = d, OF _ _ _ refl assms(3)]
    by (simp add: s1 assms(2))
  from other match mismatch show ?thesis by blast
qed

theorem checkAdminRequest_after_not_found_witness:
  \<open>endpointMissing demo_endpoints
      \<lparr>req_method = ''POST'', pathname = ''/admin/unknown'', headers = Map.empty, body = [], textRejects = False,
       remoteAddress = Some ''10.0.0.1''\<rparr>
   \<and> \<not> activeBan (demo_env (1/2)) demo_state (Some ''10.0.0.1'')
   \<and> validateRequest demo_ecdsa demo_endpoints
      \<lparr>req_method = ''POST'', pathname = ''/admin/unknown'', headers = Map.empty, body = [], textRejects = False,
       remoteAddress = Some ''10.0.0.1''\<rparr> demo_state =
      (Returned JUndefined,
       \<lparr>banStore = Map.empty,
        trace = [Send 404 \<lparr>success = False, error = [Str ''Not found'']\<rparr>]\<rparr>)
   \<and> checkAdminRequest (demo_env (1/2)) demo_endpoints
      \<lparr>req_method = ''POST'', pathname = ''/admin/unknown'', headers = Map.empty, body = [], textRejects = False,
       remoteAddress = Some ''10.0.0.1''\<rparr> demo_state =
      (Returned JUndefined,
       \<lparr>banStore = [Some ''10.0.0.1'' \<mapsto> 1315],
        trace = [Send 404 \<lparr>success = False, error = [Str ''Not found'']\<rparr>,
                 IsBanned (Some ''10.0.0.1''), GetPublicControlKey,
                 Ban (Some ''10.0.0.1'') 315,
                 Send 401 \<lparr>success = False, error =
                   [Str ''Header "X-Public-Key" should be the control key'']\<rparr>]\<rparr>)
   \<and> checkAdminRequest (demo_env (1/2)) demo_endpoints
      \<lparr>req_method = ''GET'', pathname = ''/admin/unknown'', headers = Map.empty, body = [], textRejects = False,
       remoteAddress = Some ''10.0.0.1''\<rparr> demo_state =
      (Returned JTrue,
       \<lparr>banStore = Map.empty,
        trace = [Send 404 \<lparr>success = False, error = [Str ''Not found'']\<rparr>]\<rparr>)\<close>
proof -
  let ?post = "\<lparr>req_method = ''POST'', pathname = ''/admin/unknown'', headers = Map.empty,
       body = [], textRejects = False, remoteAddress = Some ''10.0.0.1''\<rparr>"
  let ?get = "\<lparr>req_method = ''GET'', pathname = ''/admin/unknown'', headers = Map.empty,
       body = [], textRejects = False, remoteAddress = Some ''10.0.0.1''\<rparr>"
  have m1: "endpointMissing demo_endpoints ?post"
    by (simp add: endpointMissing_def demo_endpoints_def)
  have m2: "endpointMissing demo_endpoints ?get"
    by (simp add: endpointMissing_def demo_endpoints_def)
  have free: "\<not> activeBan (demo_env (1/2)) demo_state (Some ''10.0.0.1'')"
    by (simp add: admin_eval_simps)
  have v: "validateRequest demo_ecdsa demo_endpoints ?post demo_state =
      (Returned JUndefined,
       \<lparr>banStore = Map.empty,
        trace = [Send 404 \<lparr>success = False, error = [Str ''Not found'']\<rparr>]\<rparr>)"
    by (simp add: validateRequest_def demo_endpoints_def demo_state_def send_def)
  have d: "300 + \<lceil>random (demo_env (1/2)) * 30\<rceil> = 315" "now (demo_env (1/2)) = 1000"
    by (simp_all add: demo_env_def)
  from checkAdminRequest_after_not_found [OF m1 refl refl refl, of "demo_env (1/2)" demo_state] free
  have a: \<open>checkAdminRequest (demo_env (1/2)) demo_endpoints ?post demo_state =
      (Returned JUndefined,
       \<lparr>banStore = [Some ''10.0.0.1'' \<mapsto> 1315],
        trace = [Send 404 \<lparr>success = False, error = [Str ''Not found'']\<rparr>,
                 IsBanned (Some ''10.0.0.1''), GetPublicControlKey,
                 Ban (Some ''10.0.0.1'') 315,
                 Send 401 \<lparr>success = False, error =
                   [Str ''Header "X-Public-Key" should be the control key'']\<rparr>]\<rparr>)\<close>
    unfolding d by (simp add: getIp_def falsyString_def demo_state_def)
  from checkAdminRequest_after_not_found [OF m2 refl refl refl, of "demo_env (1/2)" demo_state]
  have b: "checkAdminRequest (demo_env (1/2)) demo_endpoints ?get demo_state =
      (Returned JTrue,
       \<lparr>banStore = Map.empty,
        trace = [Send 404 \<lparr>success = False, error = [Str ''Not found'']\<rparr>]\<rparr>)"
    by (simp add: demo_state_def)
  from m1 free v a b show ?thesis by simp
qed

end
